theory Spec2Isabelle
  imports Complex_Main "HOL-Library.AList" "HOL-Library.State_Monad"
begin

section \<open>Python values used by the e-mail routing script\<close>

text \<open>
  A Python \<open>str\<close> is a sequence of Unicode code points, so it is modelled as a list of
  natural numbers (the code points); \<open>str\<close> embeds an ASCII literal of the source.
  \<open>bytes\<close> is a list of 8-bit characters.
\<close>

type_synonym pystr = "nat list"
type_synonym bytes = "char list"

definition str :: "string \<Rightarrow> pystr" where
  "str s = map of_char s"

text \<open>
  The values that the script stores in its dictionaries: strings, booleans, lists and
  nested dictionaries. A \<open>dict\<close> is an association list in insertion order;
  \<open>d[k] = v\<close> is \<open>AList.update k v d\<close>, which overwrites in place or appends.
\<close>

datatype pyval = Str pystr | Bool bool | List "pyval list" | Dict "(pystr \<times> pyval) list"

type_synonym pydict = "(pystr \<times> pyval) list"

text \<open>The exceptions (subclasses of \<open>Exception\<close>) that the script can meet.\<close>

datatype pyexn =
    KeyError pystr
  | NameError pystr
  | UnboundLocalError pystr
  | AttributeError pystr
  | ValueError pystr
  | TypeError pystr
  | UnicodeEncodeError pystr
  | OtherError pystr

definition getitem :: "('k \<times> 'v) list \<Rightarrow> 'k \<Rightarrow> ('k \<Rightarrow> pyexn) \<Rightarrow> pyexn + 'v" where
  "getitem d k err = (case map_of d k of None \<Rightarrow> Inl (err k) | Some v \<Rightarrow> Inr v)"

section \<open>The world: standard output and the text-completion client\<close>

text \<open>
  Every \<open>print\<close> of the script appends one event to \<open>stdout\<close>; an event carries the
  values that the source formats into the printed line. The name \<open>client\<close> is used by
  the script but bound elsewhere: it is a component of the world. Its answer may depend
  on the prompt and on the number of calls made so far, and it is either a response text
  or a raised exception.
\<close>

datatype event =
    ErrorClassifying pyexn
  | ErrorExtracting pyexn
  | ErrorRecognizing pyexn
  | ErrorAnalyzing pyexn
  | ErrorSummarizing pyexn
  | Routed pystr pydict pystr pystr pystr
  | EmailMetadata pydict
  | Category pystr
  | Entities "(pystr \<times> pystr) list"
  | Intent pystr
  | Sentiment pystr
  | Summary pystr
  | RoutingDestination pystr
  | Actions pydict
  | SimilarityScore real
  | ErrorProcessing pyexn
  | CreatedSample
  | ProcessingEmail pystr
  | ErrorReading pystr pyexn

record world =
  stdout :: "event list"
  client :: "nat \<Rightarrow> pystr \<Rightarrow> pyexn + pystr"
  calls :: nat

text \<open>
  \<open>print\<close> on a stream that can encode every string, where it cannot fail. The stream
  that refuses some lines is \<open>print_on\<close> below.
\<close>

definition print :: "event \<Rightarrow> (world, unit) state" where
  "print e = State (\<lambda>w. ((), w\<lparr>stdout := stdout w @ [e]\<rparr>))"

definition predict :: "pystr \<Rightarrow> (world, pyexn + pystr) state" where
  "predict prompt = State (\<lambda>w. (client w (calls w) prompt, w\<lparr>calls := calls w + 1\<rparr>))"

section \<open>String operations of the Python library\<close>

text \<open>
  \<open>str.isspace\<close> for one code point: the characters of bidirectional type WS, B or S
  and those of category Zs.
\<close>

definition isspace :: "nat \<Rightarrow> bool" where
  "isspace c \<longleftrightarrow>
     (0x09 \<le> c \<and> c \<le> 0x0D) \<or> (0x1C \<le> c \<and> c \<le> 0x20) \<or> c = 0x85 \<or> c = 0xA0 \<or>
     c = 0x1680 \<or> (0x2000 \<le> c \<and> c \<le> 0x200A) \<or> c = 0x2028 \<or> c = 0x2029 \<or>
     c = 0x202F \<or> c = 0x205F \<or> c = 0x3000"

text \<open>The line boundaries of \<open>str.splitlines\<close>.\<close>

definition islinebreak :: "nat \<Rightarrow> bool" where
  "islinebreak c \<longleftrightarrow>
     (0x0A \<le> c \<and> c \<le> 0x0D) \<or> (0x1C \<le> c \<and> c \<le> 0x1E) \<or> c = 0x85 \<or>
     c = 0x2028 \<or> c = 0x2029"

text \<open>\<open>s.split()\<close>: the maximal runs of non-whitespace characters, in order.\<close>

function py_split :: "pystr \<Rightarrow> pystr list" where
  "py_split s =
     (let s' = dropWhile isspace s in
      if s' = [] then []
      else takeWhile (\<lambda>c. \<not> isspace c) s' # py_split (dropWhile (\<lambda>c. \<not> isspace c) s'))"
  by pat_completeness auto
termination
proof (relation "measure length")
  fix s s' :: pystr
  assume s': "s' = dropWhile isspace s" and ne: "s' \<noteq> []"
  from ne have "\<not> isspace (hd s')"
    unfolding s' by (rule hd_dropWhile)
  with ne have "length (dropWhile (\<lambda>c. \<not> isspace c) s') < length s'"
    by (cases s') (simp_all add: length_dropWhile_le less_Suc_eq_le)
  moreover have "length s' \<le> length s"
    unfolding s' by (rule length_dropWhile_le)
  ultimately show "(dropWhile (\<lambda>c. \<not> isspace c) s', s) \<in> measure length"
    by simp
qed simp

declare py_split.simps [simp del]

text \<open>\<open>sep.join(xs)\<close>.\<close>

fun py_join :: "pystr \<Rightarrow> pystr list \<Rightarrow> pystr" where
  "py_join sep [] = []"
| "py_join sep [x] = x"
| "py_join sep (x # y # ys) = x @ sep @ py_join sep (y # ys)"

text \<open>\<open>s.strip()\<close>: whitespace removed at both ends.\<close>

definition py_strip :: "pystr \<Rightarrow> pystr" where
  "py_strip s = rev (dropWhile isspace (rev (dropWhile isspace s)))"

text \<open>
  \<open>s.splitlines()\<close>: a line ends at a line boundary, \<open>\r\n\<close> counting as one; the
  boundaries are dropped and no empty line follows a final boundary.
\<close>

function py_splitlines :: "pystr \<Rightarrow> pystr list" where
  "py_splitlines s =
     (if s = [] then []
      else takeWhile (\<lambda>c. \<not> islinebreak c) s #
        py_splitlines
          (case dropWhile (\<lambda>c. \<not> islinebreak c) s of
             [] \<Rightarrow> []
           | c # cs \<Rightarrow> (case cs of d # ds \<Rightarrow> if c = 0x0D \<and> d = 0x0A then ds else cs | [] \<Rightarrow> cs)))"
  by pat_completeness auto
termination
proof (relation "measure length")
  fix s :: pystr
  assume "s \<noteq> []"
  have "length (dropWhile (\<lambda>c. \<not> islinebreak c) s) \<le> length s"
    by (rule length_dropWhile_le)
  with \<open>s \<noteq> []\<close>
  show "(case dropWhile (\<lambda>c. \<not> islinebreak c) s of
           [] \<Rightarrow> []
         | c # cs \<Rightarrow> (case cs of d # ds \<Rightarrow> if c = 0x0D \<and> d = 0x0A then ds else cs | [] \<Rightarrow> cs), s)
        \<in> measure length"
    by (auto split: list.splits)
qed simp

declare py_splitlines.simps [simp del]

text \<open>
  \<open>s.split(sep, 1)\<close> for a separator of one character: the text before the first
  separator and the text after it, or the whole string when there is no separator.
\<close>

definition py_split1 :: "nat \<Rightarrow> pystr \<Rightarrow> pystr list" where
  "py_split1 sep s =
     (if sep \<in> set s then [takeWhile (\<lambda>c. c \<noteq> sep) s, tl (dropWhile (\<lambda>c. c \<noteq> sep) s)]
      else [s])"

definition py_endswith :: "pystr \<Rightarrow> pystr \<Rightarrow> bool" where
  "py_endswith s suffix \<longleftrightarrow>
     length suffix \<le> length s \<and> drop (length s - length suffix) s = suffix"

section \<open>Content normalisation\<close>

text \<open>
  The regular expression \<open><[^>]+>\<close> matched at the start of a string whose first
  character \<open><\<close> has been read: the greedy class takes every character up to the next
  \<open>>\<close>, it must take at least one, and the \<open>>\<close> must be there. The result is the text
  after the match.
\<close>

definition lt :: nat where "lt = 0x3C"
definition gt :: nat where "gt = 0x3E"

definition match_tag :: "pystr \<Rightarrow> pystr option" where
  "match_tag cs =
     (let inner = takeWhile (\<lambda>c. c \<noteq> gt) cs;
          rest = dropWhile (\<lambda>c. c \<noteq> gt) cs in
      if inner \<noteq> [] \<and> rest \<noteq> [] then Some (tl rest) else None)"

text \<open>
  \<open>re.sub(r"<[^>]+>", "", s)\<close>: the leftmost match is deleted and the scan goes on
  after it; a character at which no match starts is kept.
\<close>

function re_sub_tags :: "pystr \<Rightarrow> pystr" where
  "re_sub_tags [] = []"
| "re_sub_tags (c # cs) =
     (if c = lt then
        (case match_tag cs of
           Some rest \<Rightarrow> re_sub_tags rest
         | None \<Rightarrow> c # re_sub_tags cs)
      else c # re_sub_tags cs)"
  by pat_completeness auto
termination
proof (relation "measure length")
  fix c :: nat and cs rest :: pystr
  assume "match_tag cs = Some rest"
  then have "rest = tl (dropWhile (\<lambda>c. c \<noteq> gt) cs)"
    by (simp add: match_tag_def Let_def split: if_splits)
  moreover have "length (dropWhile (\<lambda>c. c \<noteq> gt) cs) \<le> length cs"
    by (rule length_dropWhile_le)
  ultimately show "(rest, c # cs) \<in> measure length"
    by simp
qed simp_all

text \<open>\<open>clean_email_content\<close>, lines 54 to 69.\<close>

definition clean_email_content :: "pystr \<Rightarrow> pystr" where
  "clean_email_content email_content =
     (let cleaned_text = re_sub_tags email_content;
          cleaned_text = py_join (str '' '') (py_split cleaned_text)
      in cleaned_text)"

section \<open>The vocabularies\<close>

definition EMAIL_CATEGORIES :: "pystr list" where
  "EMAIL_CATEGORIES =
     [str ''Account Inquiry'', str ''Transaction Dispute'', str ''Loan Application'',
      str ''Mortgage Inquiry'', str ''Fraud Report'', str ''Service Request'',
      str ''Complaint'', str ''Feedback'', str ''General Inquiry'']"

definition EMAIL_ENTITIES :: "pystr list" where
  "EMAIL_ENTITIES =
     [str ''Account Number'', str ''Transaction ID'', str ''Customer Name'',
      str ''Phone Number'', str ''Email Address'', str ''Date'', str ''Amount'',
      str ''Product Type'']"

definition EMAIL_INTENTS :: "pystr list" where
  "EMAIL_INTENTS =
     [str ''Request Information'', str ''Report a Problem'', str ''Apply for a Service'',
      str ''Provide Feedback'', str ''Seek Help'']"

definition EMAIL_SENTIMENTS :: "pystr list" where
  "EMAIL_SENTIMENTS = [str ''Positive'', str ''Negative'', str ''Neutral'']"

section \<open>The five analysis operations\<close>

text \<open>
  Each operation builds its prompt, calls \<open>client.chat_model.predict(prompt).text\<close>
  inside \<open>try\<close>, and on any exception prints a line and returns its default.
\<close>

definition classify_prompt :: "pystr \<Rightarrow> pystr" where
  "classify_prompt email_content =
     str ''\<newline>    Classify the following email into one of these categories: ''
     @ py_join (str '', '') EMAIL_CATEGORIES
     @ str ''.\<newline>    Provide *only* the category name.\<newline>    Email: ''
     @ email_content @ str ''\<newline>    ''"

definition classify_email :: "pystr \<Rightarrow> (world, pystr) state" where
  "classify_email email_content = do {
     r \<leftarrow> predict (classify_prompt email_content);
     case r of
       Inr response \<Rightarrow> State_Monad.return (py_strip response)
     | Inl e \<Rightarrow> do {
         print (ErrorClassifying e);
         State_Monad.return (str ''General Inquiry'')
       }
   }"

definition entities_prompt :: "pystr \<Rightarrow> pystr" where
  "entities_prompt email_content =
     str ''\<newline>    Extract the following information from the email. If a piece of information is not present, output 'N/A'.\<newline>    ''
     @ py_join (str ''\<newline>'') (map (\<lambda>entity. entity @ str '':'') EMAIL_ENTITIES)
     @ str ''\<newline>    Email: '' @ email_content @ str ''\<newline>    ''"

definition colon :: nat where "colon = 0x3A"

text \<open>
  The loop of lines 151 to 154. \<open>key, value = line.split(":", 1)\<close> raises
  \<open>ValueError\<close> unless the split has two parts.
\<close>

fun entity_lines :: "pystr list \<Rightarrow> (pystr \<times> pystr) list \<Rightarrow> pyexn + (pystr \<times> pystr) list" where
  "entity_lines [] extracted_entities = Inr extracted_entities"
| "entity_lines (line # lines) extracted_entities =
     (if colon \<in> set line then
        (case py_split1 colon line of
           [key, value] \<Rightarrow>
             entity_lines lines (AList.update (py_strip key) (py_strip value) extracted_entities)
         | _ \<Rightarrow> Inl (ValueError (str ''unpack'')))
      else entity_lines lines extracted_entities)"

definition extract_entities :: "pystr \<Rightarrow> (world, (pystr \<times> pystr) list) state" where
  "extract_entities email_content = do {
     r \<leftarrow> predict (entities_prompt email_content);
     case (case r of
             Inr response \<Rightarrow> entity_lines (py_splitlines response) []
           | Inl e \<Rightarrow> Inl e) of
       Inr extracted_entities \<Rightarrow> State_Monad.return extracted_entities
     | Inl e \<Rightarrow> do {
         print (ErrorExtracting e);
         State_Monad.return
           (fold (\<lambda>entity d. AList.update entity (str ''N/A'') d) EMAIL_ENTITIES [])
       }
   }"

definition intent_prompt :: "pystr \<Rightarrow> pystr" where
  "intent_prompt email_content =
     str ''\<newline>    What is the primary intent of this email? Choose one of the following: ''
     @ py_join (str '', '') EMAIL_INTENTS
     @ str ''.\<newline>    Email: '' @ email_content @ str ''\<newline>    ''"

definition recognize_intent :: "pystr \<Rightarrow> (world, pystr) state" where
  "recognize_intent email_content = do {
     r \<leftarrow> predict (intent_prompt email_content);
     case r of
       Inr response \<Rightarrow> State_Monad.return (py_strip response)
     | Inl e \<Rightarrow> do {
         print (ErrorRecognizing e);
         State_Monad.return (str ''General Inquiry'')
       }
   }"

definition sentiment_prompt :: "pystr \<Rightarrow> pystr" where
  "sentiment_prompt email_content =
     str ''\<newline>    What is the sentiment of this email? Choose one of the following: ''
     @ py_join (str '', '') EMAIL_SENTIMENTS
     @ str ''.\<newline>    Email: '' @ email_content @ str ''\<newline>    ''"

definition analyze_sentiment :: "pystr \<Rightarrow> (world, pystr) state" where
  "analyze_sentiment email_content = do {
     r \<leftarrow> predict (sentiment_prompt email_content);
     case r of
       Inr response \<Rightarrow> State_Monad.return (py_strip response)
     | Inl e \<Rightarrow> do {
         print (ErrorAnalyzing e);
         State_Monad.return (str ''Neutral'')
       }
   }"

definition summary_prompt :: "pystr \<Rightarrow> pystr" where
  "summary_prompt email_content =
     str ''\<newline>    Summarize the following email in three sentences or less:\<newline>    ''
     @ email_content @ str ''\<newline>    ''"

definition summarize_email :: "pystr \<Rightarrow> (world, pystr) state" where
  "summarize_email email_content = do {
     r \<leftarrow> predict (summary_prompt email_content);
     case r of
       Inr response \<Rightarrow> State_Monad.return (py_strip response)
     | Inl e \<Rightarrow> do {
         print (ErrorSummarizing e);
         State_Monad.return (str ''Summary not available.'')
       }
   }"

section \<open>Routing\<close>

text \<open>
  \<open>route_email\<close>, lines 231 to 297. The \<open>if\<close>/\<open>elif\<close> chain computes the destination
  and the actions, or raises \<open>KeyError\<close> where \<open>email_metadata["sender_email"]\<close> is
  read and the key is absent; the log line is printed only when the chain completes.
\<close>

definition route_email ::
  "pystr \<Rightarrow> (pystr \<times> pystr) list \<Rightarrow> pystr \<Rightarrow> pystr \<Rightarrow> pystr \<Rightarrow> pydict
     \<Rightarrow> (world, pyexn + pystr \<times> pydict) state" where
  "route_email category entities intent sentiment summary email_metadata =
    (let destination = str ''General Inquiry Department'';
         actions = [] in
     case
      (if category = str ''Fraud Report'' then
         (let actions = AList.update (str ''create_ticket'')
                (Dict [(str ''system'', Str (str ''CRM'')), (str ''priority'', Str (str ''High''))])
                actions in
          case getitem email_metadata (str ''sender_email'') KeyError of
            Inl e \<Rightarrow> Inl e
          | Inr sender \<Rightarrow>
              Inr (str ''Fraud Department'',
                   AList.update (str ''send_acknowledgment'')
                     (Dict [(str ''type'', Str (str ''FraudReportReceived'')), (str ''to'', sender)])
                     actions))
       else if category = str ''Loan Application'' then
         Inr (str ''Loan Department'',
              AList.update (str ''create_ticket'')
                (Dict [(str ''system'', Str (str ''LoanOriginationSystem'')),
                       (str ''priority'', Str (str ''Medium''))])
                actions)
       else if category = str ''Account Inquiry'' then
         (case getitem email_metadata (str ''sender_email'') KeyError of
            Inl e \<Rightarrow> Inl e
          | Inr sender \<Rightarrow>
              Inr (str ''Customer Service Department'',
                   AList.update (str ''send_acknowledgment'')
                     (Dict [(str ''type'', Str (str ''AccountInquiryReceived'')), (str ''to'', sender)])
                     actions))
       else if category = str ''Transaction Dispute'' then
         Inr (str ''Dispute Resolution Department'',
              AList.update (str ''create_ticket'')
                (Dict [(str ''system'', Str (str ''DisputeTrackingSystem'')),
                       (str ''priority'', Str (str ''High''))])
                actions)
       else if category = str ''Mortgage Inquiry'' then
         Inr (str ''Mortgage Department'',
              AList.update (str ''create_ticket'')
                (Dict [(str ''system'', Str (str ''MortgageOriginationSystem'')),
                       (str ''priority'', Str (str ''Medium''))])
                actions)
       else if category = str ''Service Request'' then
         Inr (str ''Customer Service Department'',
              AList.update (str ''create_ticket'')
                (Dict [(str ''system'', Str (str ''CRM'')), (str ''priority'', Str (str ''Medium''))])
                actions)
       else if category = str ''Complaint'' then
         (let actions = AList.update (str ''create_ticket'')
                (Dict [(str ''system'', Str (str ''CRM'')), (str ''priority'', Str (str ''High''))])
                actions in
          Inr (str ''Customer Relations Department'',
               if sentiment = str ''Negative''
               then AList.update (str ''escalate'') (Bool True) actions
               else actions))
       else if category = str ''Feedback'' then
         Inr (str ''Product Development Department'', actions)
       else if category = str ''General Inquiry'' then
         Inr (str ''Customer Service Department'', actions)
       else Inr (destination, actions))
     of
       Inl e \<Rightarrow> State_Monad.return (Inl e)
     | Inr (destination, actions) \<Rightarrow> do {
         print (Routed destination actions category intent sentiment);
         State_Monad.return (Inr (destination, actions))
       })"

section \<open>Similarity score\<close>

text \<open>
  \<open>calculate_similarity_score\<close>, lines 300 to 323. The loop runs over the keys of
  \<open>expected_entities\<close> and keeps the two counters; the quotient of the two integers,
  a Python float, is modelled by the exact quotient.
\<close>

definition similarity_counts :: "(pystr \<times> pystr) list \<Rightarrow> (pystr \<times> pystr) list \<Rightarrow> nat \<times> nat" where
  "similarity_counts extracted_entities expected_entities =
     fold (\<lambda>key (match_count, total_count).
             if map_of extracted_entities key \<noteq> None then
               (if map_of extracted_entities key = map_of expected_entities key
                then match_count + 1 else match_count,
                total_count + 1)
             else (match_count, total_count))
          (map fst expected_entities) (0, 0)"

definition calculate_similarity_score :: "(pystr \<times> pystr) list \<Rightarrow> (pystr \<times> pystr) list \<Rightarrow> real" where
  "calculate_similarity_score extracted_entities expected_entities =
     (case similarity_counts extracted_entities expected_entities of
        (match_count, total_count) \<Rightarrow>
          if total_count = 0 then 0 else real match_count / real total_count)"

section \<open>Messages\<close>

text \<open>
  A parsed message, as \<open>BytesParser(policy=policy.default).parsebytes\<close> returns it:
  the header fields, the content type, the file name of the part if it has one, and
  either the decoded payload or the list of sub-parts. The parser, the UTF-8 decoder
  and the serialiser \<open>as_bytes\<close> belong to the Python library; they are the
  components of \<open>library\<close>.
\<close>

datatype message =
    Leaf "(pystr \<times> pystr) list" pystr "pystr option" bytes
  | Multipart "(pystr \<times> pystr) list" pystr "pystr option" "message list"

record library =
  parsebytes :: "bytes \<Rightarrow> pyexn + message"
  decode_utf8_ignore :: "bytes \<Rightarrow> pystr"
  as_bytes :: "message \<Rightarrow> bytes"

fun headers :: "message \<Rightarrow> (pystr \<times> pystr) list" where
  "headers (Leaf h ct fn b) = h"
| "headers (Multipart h ct fn ps) = h"

fun get_content_type :: "message \<Rightarrow> pystr" where
  "get_content_type (Leaf h ct fn b) = ct"
| "get_content_type (Multipart h ct fn ps) = ct"

fun get_filename :: "message \<Rightarrow> pystr option" where
  "get_filename (Leaf h ct fn b) = fn"
| "get_filename (Multipart h ct fn ps) = fn"

fun is_multipart :: "message \<Rightarrow> bool" where
  "is_multipart (Leaf h ct fn b) = False"
| "is_multipart (Multipart h ct fn ps) = True"

text \<open>\<open>get_payload(decode=True)\<close> is \<open>None\<close> for a multipart message.\<close>

fun get_payload_decode :: "message \<Rightarrow> bytes option" where
  "get_payload_decode (Leaf h ct fn b) = Some b"
| "get_payload_decode (Multipart h ct fn ps) = None"

text \<open>\<open>walk()\<close>: the message itself, then its sub-parts, depth first.\<close>

fun walk :: "message \<Rightarrow> message list" where
  "walk (Leaf h ct fn b) = [Leaf h ct fn b]"
| "walk (Multipart h ct fn ps) = Multipart h ct fn ps # concat (map walk ps)"

text \<open>
  \<open>email_message.get(name)\<close>: the first header field whose name, in lower case, is
  the given name in lower case. The names of a parsed message hold ASCII characters
  and the surrogates that stand for undecodable bytes, so that only the ASCII capitals
  change in \<open>lower()\<close>.
\<close>

definition ascii_lower :: "nat \<Rightarrow> nat" where
  "ascii_lower c = (if 0x41 \<le> c \<and> c \<le> 0x5A then c + 0x20 else c)"

definition get_header :: "message \<Rightarrow> pystr \<Rightarrow> pystr option" where
  "get_header email_message name =
     map_of (map (\<lambda>(k, v). (map ascii_lower k, v)) (headers email_message))
       (map ascii_lower name)"

text \<open>\<open>str(email_message.get(name))\<close>: an absent header gives the string \<open>None\<close>.\<close>

definition str_header :: "message \<Rightarrow> pystr \<Rightarrow> pystr" where
  "str_header email_message name =
     (case get_header email_message name of None \<Rightarrow> str ''None'' | Some v \<Rightarrow> v)"

text \<open>\<open>extract_email_metadata\<close>, lines 73 to 104.\<close>

definition extract_email_metadata :: "library \<Rightarrow> bytes \<Rightarrow> pyexn + pydict" where
  "extract_email_metadata lib email_bytes =
     (case parsebytes lib email_bytes of
        Inl e \<Rightarrow> Inl e
      | Inr email_message \<Rightarrow>
          (let sender_email = str_header email_message (str ''From'');
               subject = str_header email_message (str ''Subject'');
               timestamp = str_header email_message (str ''Date'');
               attachments =
                 (if is_multipart email_message
                  then concat (map (\<lambda>part. case get_filename part of
                                              None \<Rightarrow> []
                                            | Some f \<Rightarrow> if f = [] then [] else [f])
                                   (walk email_message))
                  else [])
           in Inr [(str ''sender_email'', Str sender_email),
                   (str ''subject'', Str subject),
                   (str ''timestamp'', Str timestamp),
                   (str ''attachments'', List (map Str attachments))]))"

section \<open>Processing one message\<close>

text \<open>
  Lines 342 to 351. The result is the binding of the variable \<open>email_content\<close>:
  \<open>None\<close> when the loop over the parts ends without an assignment, otherwise the
  value assigned, which is itself \<open>None\<close> or a byte string.
\<close>

definition select_body :: "message \<Rightarrow> bytes option option" where
  "select_body email_message =
     (if is_multipart email_message then
        (case filter (\<lambda>part. get_content_type part = str ''text/plain'') (walk email_message) of
           [] \<Rightarrow> None
         | part # _ \<Rightarrow> Some (get_payload_decode part))
      else Some (get_payload_decode email_message))"

text \<open>Line 352: \<open>email_content.decode("utf-8", errors="ignore")\<close>.\<close>

definition decode_body :: "library \<Rightarrow> bytes option option \<Rightarrow> pyexn + pystr" where
  "decode_body lib email_content =
     (case email_content of
        None \<Rightarrow> Inl (UnboundLocalError (str ''email_content''))
      | Some None \<Rightarrow> Inl (AttributeError (str ''decode''))
      | Some (Some b) \<Rightarrow> Inr (decode_utf8_ignore lib b))"

definition expected_entities :: "(pystr \<times> pystr) list" where
  "expected_entities =
     [(str ''Account Number'', str ''1234567890''),
      (str ''Transaction ID'', str ''N/A''),
      (str ''Customer Name'', str ''John Smith''),
      (str ''Phone Number'', str ''555-123-4567''),
      (str ''Email Address'', str ''customer@example.com''),
      (str ''Date'', str ''2024-07-24T10:00:00''),
      (str ''Amount'', str ''1000''),
      (str ''Product Type'', str ''N/A'')]"

text \<open>
  Steps 3 to 6 of \<open>process_email\<close>, lines 355 to 390: they run once the body text is
  there, and only \<open>route_email\<close> can raise in them.
\<close>

definition analyze_and_route :: "pydict \<Rightarrow> pystr \<Rightarrow> (world, pyexn + unit) state" where
  "analyze_and_route email_metadata email_content = do {
     let cleaned_content = clean_email_content email_content;
     category \<leftarrow> classify_email cleaned_content;
     entities \<leftarrow> extract_entities cleaned_content;
     intent \<leftarrow> recognize_intent cleaned_content;
     sentiment \<leftarrow> analyze_sentiment cleaned_content;
     summary \<leftarrow> summarize_email cleaned_content;
     print (Category category);
     print (Entities entities);
     print (Intent intent);
     print (Sentiment sentiment);
     print (Summary summary);
     r \<leftarrow> route_email category entities intent sentiment summary email_metadata;
     case r of
       Inl e \<Rightarrow> State_Monad.return (Inl e)
     | Inr (destination, actions) \<Rightarrow> do {
         print (RoutingDestination destination);
         print (Actions actions);
         let similarity_score = calculate_similarity_score entities expected_entities;
         print (SimilarityScore similarity_score);
         State_Monad.return (Inr ())
       }
   }"

text \<open>The body of the \<open>try\<close> statement of \<open>process_email\<close>, lines 335 to 390.\<close>

definition process_email_try :: "library \<Rightarrow> bytes \<Rightarrow> (world, pyexn + unit) state" where
  "process_email_try lib email_bytes =
     (case extract_email_metadata lib email_bytes of
        Inl e \<Rightarrow> State_Monad.return (Inl e)
      | Inr email_metadata \<Rightarrow> do {
          print (EmailMetadata email_metadata);
          case parsebytes lib email_bytes of
            Inl e \<Rightarrow> State_Monad.return (Inl e)
          | Inr email_message \<Rightarrow>
              (case decode_body lib (select_body email_message) of
                 Inl e \<Rightarrow> State_Monad.return (Inl e)
               | Inr email_content \<Rightarrow> analyze_and_route email_metadata email_content)
        })"

text \<open>\<open>process_email\<close>, lines 327 to 393: the \<open>except Exception\<close> clause prints the error.\<close>

definition process_email :: "library \<Rightarrow> bytes \<Rightarrow> (world, unit) state" where
  "process_email lib email_bytes = do {
     r \<leftarrow> process_email_try lib email_bytes;
     case r of
       Inl e \<Rightarrow> print (ErrorProcessing e)
     | Inr u \<Rightarrow> State_Monad.return ()
   }"

section \<open>Standard output that cannot encode every line\<close>

text \<open>
  \<open>print\<close> encodes its line for the stream and raises \<open>UnicodeEncodeError\<close>, with
  nothing written, when the stream cannot encode it. \<open>accepts\<close> tells which lines the
  stream of a run can encode. The functions of this section are the functions of the
  script once more, on such a stream: an exception raised by a \<open>print\<close> goes the way
  of any other exception.
\<close>

definition print_on :: "(event \<Rightarrow> bool) \<Rightarrow> event \<Rightarrow> (world, pyexn + unit) state" where
  "print_on accepts e =
     State (\<lambda>w. if accepts e then (Inr (), w\<lparr>stdout := stdout w @ [e]\<rparr>)
                else (Inl (UnicodeEncodeError (str ''stdout'')), w))"

text \<open>One statement after another: an exception of the first ends the sequence.\<close>

definition and_then ::
  "(world, pyexn + 'a) state \<Rightarrow> ('a \<Rightarrow> (world, pyexn + 'b) state) \<Rightarrow> (world, pyexn + 'b) state" where
  "and_then m f = do {
     r \<leftarrow> m;
     case r of Inl e \<Rightarrow> State_Monad.return (Inl e) | Inr x \<Rightarrow> f x
   }"

text \<open>\<open>try: m except Exception as e: handler e\<close>.\<close>

definition try_except ::
  "(world, pyexn + 'a) state \<Rightarrow> (pyexn \<Rightarrow> (world, pyexn + 'a) state) \<Rightarrow> (world, pyexn + 'a) state" where
  "try_except m handler = do {
     r \<leftarrow> m;
     case r of Inl e \<Rightarrow> handler e | Inr x \<Rightarrow> State_Monad.return (Inr x)
   }"

definition classify_email_on :: "(event \<Rightarrow> bool) \<Rightarrow> pystr \<Rightarrow> (world, pyexn + pystr) state" where
  "classify_email_on accepts email_content =
     try_except
       (do { r \<leftarrow> predict (classify_prompt email_content);
             State_Monad.return (map_sum id py_strip r) })
       (\<lambda>e. and_then (print_on accepts (ErrorClassifying e))
               (\<lambda>_. State_Monad.return (Inr (str ''General Inquiry''))))"

definition extract_entities_on ::
  "(event \<Rightarrow> bool) \<Rightarrow> pystr \<Rightarrow> (world, pyexn + (pystr \<times> pystr) list) state" where
  "extract_entities_on accepts email_content =
     try_except
       (do { r \<leftarrow> predict (entities_prompt email_content);
             State_Monad.return
               (case r of
                  Inr response \<Rightarrow> entity_lines (py_splitlines response) []
                | Inl e \<Rightarrow> Inl e) })
       (\<lambda>e. and_then (print_on accepts (ErrorExtracting e))
               (\<lambda>_. State_Monad.return
                  (Inr (fold (\<lambda>entity d. AList.update entity (str ''N/A'') d) EMAIL_ENTITIES []))))"

definition recognize_intent_on :: "(event \<Rightarrow> bool) \<Rightarrow> pystr \<Rightarrow> (world, pyexn + pystr) state" where
  "recognize_intent_on accepts email_content =
     try_except
       (do { r \<leftarrow> predict (intent_prompt email_content);
             State_Monad.return (map_sum id py_strip r) })
       (\<lambda>e. and_then (print_on accepts (ErrorRecognizing e))
               (\<lambda>_. State_Monad.return (Inr (str ''General Inquiry''))))"

definition analyze_sentiment_on :: "(event \<Rightarrow> bool) \<Rightarrow> pystr \<Rightarrow> (world, pyexn + pystr) state" where
  "analyze_sentiment_on accepts email_content =
     try_except
       (do { r \<leftarrow> predict (sentiment_prompt email_content);
             State_Monad.return (map_sum id py_strip r) })
       (\<lambda>e. and_then (print_on accepts (ErrorAnalyzing e))
               (\<lambda>_. State_Monad.return (Inr (str ''Neutral''))))"

definition summarize_email_on :: "(event \<Rightarrow> bool) \<Rightarrow> pystr \<Rightarrow> (world, pyexn + pystr) state" where
  "summarize_email_on accepts email_content =
     try_except
       (do { r \<leftarrow> predict (summary_prompt email_content);
             State_Monad.return (map_sum id py_strip r) })
       (\<lambda>e. and_then (print_on accepts (ErrorSummarizing e))
               (\<lambda>_. State_Monad.return (Inr (str ''Summary not available.''))))"

text \<open>
  \<open>route_email\<close>, lines 231 to 297, on such a stream: the chain of lines 258 to 291,
  then the log line of line 294, then the return.
\<close>

definition route_email_on ::
  "(event \<Rightarrow> bool) \<Rightarrow> pystr \<Rightarrow> (pystr \<times> pystr) list \<Rightarrow> pystr \<Rightarrow> pystr \<Rightarrow> pystr \<Rightarrow> pydict
     \<Rightarrow> (world, pyexn + pystr \<times> pydict) state" where
  "route_email_on accepts category entities intent sentiment summary email_metadata =
    (let destination = str ''General Inquiry Department'';
         actions = [] in
     case
      (if category = str ''Fraud Report'' then
         (let actions = AList.update (str ''create_ticket'')
                (Dict [(str ''system'', Str (str ''CRM'')), (str ''priority'', Str (str ''High''))])
                actions in
          case getitem email_metadata (str ''sender_email'') KeyError of
            Inl e \<Rightarrow> Inl e
          | Inr sender \<Rightarrow>
              Inr (str ''Fraud Department'',
                   AList.update (str ''send_acknowledgment'')
                     (Dict [(str ''type'', Str (str ''FraudReportReceived'')), (str ''to'', sender)])
                     actions))
       else if category = str ''Loan Application'' then
         Inr (str ''Loan Department'',
              AList.update (str ''create_ticket'')
                (Dict [(str ''system'', Str (str ''LoanOriginationSystem'')),
                       (str ''priority'', Str (str ''Medium''))])
                actions)
       else if category = str ''Account Inquiry'' then
         (case getitem email_metadata (str ''sender_email'') KeyError of
            Inl e \<Rightarrow> Inl e
          | Inr sender \<Rightarrow>
              Inr (str ''Customer Service Department'',
                   AList.update (str ''send_acknowledgment'')
                     (Dict [(str ''type'', Str (str ''AccountInquiryReceived'')), (str ''to'', sender)])
                     actions))
       else if category = str ''Transaction Dispute'' then
         Inr (str ''Dispute Resolution Department'',
              AList.update (str ''create_ticket'')
                (Dict [(str ''system'', Str (str ''DisputeTrackingSystem'')),
                       (str ''priority'', Str (str ''High''))])
                actions)
       else if category = str ''Mortgage Inquiry'' then
         Inr (str ''Mortgage Department'',
              AList.update (str ''create_ticket'')
                (Dict [(str ''system'', Str (str ''MortgageOriginationSystem'')),
                       (str ''priority'', Str (str ''Medium''))])
                actions)
       else if category = str ''Service Request'' then
         Inr (str ''Customer Service Department'',
              AList.update (str ''create_ticket'')
                (Dict [(str ''system'', Str (str ''CRM'')), (str ''priority'', Str (str ''Medium''))])
                actions)
       else if category = str ''Complaint'' then
         (let actions = AList.update (str ''create_ticket'')
                (Dict [(str ''system'', Str (str ''CRM'')), (str ''priority'', Str (str ''High''))])
                actions in
          Inr (str ''Customer Relations Department'',
               if sentiment = str ''Negative''
               then AList.update (str ''escalate'') (Bool True) actions
               else actions))
       else if category = str ''Feedback'' then
         Inr (str ''Product Development Department'', actions)
       else if category = str ''General Inquiry'' then
         Inr (str ''Customer Service Department'', actions)
       else Inr (destination, actions))
     of
       Inl e \<Rightarrow> State_Monad.return (Inl e)
     | Inr (destination, actions) \<Rightarrow>
         and_then (print_on accepts (Routed destination actions category intent sentiment))
           (\<lambda>_. State_Monad.return (Inr (destination, actions))))"

text \<open>Steps 3 to 6 of \<open>process_email\<close>, lines 355 to 390.\<close>

definition analyze_and_route_on ::
  "(event \<Rightarrow> bool) \<Rightarrow> pydict \<Rightarrow> pystr \<Rightarrow> (world, pyexn + unit) state" where
  "analyze_and_route_on accepts email_metadata email_content =
     (let cleaned_content = clean_email_content email_content in
      and_then (classify_email_on accepts cleaned_content) (\<lambda>category.
      and_then (extract_entities_on accepts cleaned_content) (\<lambda>entities.
      and_then (recognize_intent_on accepts cleaned_content) (\<lambda>intent.
      and_then (analyze_sentiment_on accepts cleaned_content) (\<lambda>sentiment.
      and_then (summarize_email_on accepts cleaned_content) (\<lambda>summary.
      and_then (print_on accepts (Category category)) (\<lambda>_.
      and_then (print_on accepts (Entities entities)) (\<lambda>_.
      and_then (print_on accepts (Intent intent)) (\<lambda>_.
      and_then (print_on accepts (Sentiment sentiment)) (\<lambda>_.
      and_then (print_on accepts (Summary summary)) (\<lambda>_.
      and_then (route_email_on accepts category entities intent sentiment summary email_metadata)
        (\<lambda>(destination, actions).
      and_then (print_on accepts (RoutingDestination destination)) (\<lambda>_.
      and_then (print_on accepts (Actions actions)) (\<lambda>_.
      print_on accepts
        (SimilarityScore (calculate_similarity_score entities expected_entities))))))))))))))))"

text \<open>The body of the \<open>try\<close> statement of \<open>process_email\<close>, lines 335 to 390.\<close>

definition process_email_try_on ::
  "(event \<Rightarrow> bool) \<Rightarrow> library \<Rightarrow> bytes \<Rightarrow> (world, pyexn + unit) state" where
  "process_email_try_on accepts lib email_bytes =
     (case extract_email_metadata lib email_bytes of
        Inl e \<Rightarrow> State_Monad.return (Inl e)
      | Inr email_metadata \<Rightarrow>
          and_then (print_on accepts (EmailMetadata email_metadata)) (\<lambda>_.
            case parsebytes lib email_bytes of
              Inl e \<Rightarrow> State_Monad.return (Inl e)
            | Inr email_message \<Rightarrow>
                (case decode_body lib (select_body email_message) of
                   Inl e \<Rightarrow> State_Monad.return (Inl e)
                 | Inr email_content \<Rightarrow>
                     analyze_and_route_on accepts email_metadata email_content)))"

text \<open>\<open>process_email\<close>, lines 327 to 393: the handler prints the error, and may raise.\<close>

definition process_email_on ::
  "(event \<Rightarrow> bool) \<Rightarrow> library \<Rightarrow> bytes \<Rightarrow> (world, pyexn + unit) state" where
  "process_email_on accepts lib email_bytes =
     try_except (process_email_try_on accepts lib email_bytes)
       (\<lambda>e. print_on accepts (ErrorProcessing e))"

section \<open>The sample message\<close>

text \<open>
  \<open>add_attachment(data, maintype, subtype, filename=...)\<close> of the library for a byte
  string: the content manager needs the two parts of the MIME type and raises
  \<open>TypeError\<close> without them. Otherwise the message becomes (or stays) a multipart
  message and the attachment is its last part.
\<close>

definition add_attachment ::
  "message \<Rightarrow> bytes \<Rightarrow> (pystr \<times> pystr) option \<Rightarrow> pystr \<Rightarrow> pyexn + message" where
  "add_attachment message data mime_type file_name =
     (case mime_type of
        None \<Rightarrow> Inl (TypeError (str ''missing maintype and subtype''))
      | Some (maintype, subtype) \<Rightarrow>
          (let part = Leaf [] (maintype @ str ''/'' @ subtype) (Some file_name) data in
           case message of
             Leaf h ct fn b \<Rightarrow>
               Inr (Multipart h (str ''multipart/mixed'') None [Leaf [] ct fn b, part])
           | Multipart h ct fn ps \<Rightarrow> Inr (Multipart h ct fn (ps @ [part]))))"

text \<open>
  \<open>create_sample_email\<close>, lines 398 to 426. Line 424 passes the bytes and the file
  name only.
\<close>

definition create_sample_email :: "library \<Rightarrow> pyexn + bytes" where
  "create_sample_email lib =
     (let message =
            Leaf [(str ''From'', str ''customer@example.com''),
                  (str ''To'', str ''bank@example.com''),
                  (str ''Subject'', str ''Urgent: Unauthorized Transaction''),
                  (str ''Date'', str ''2024-07-24T10:00:00'')]
              (str ''text/plain'') None
              ''\<newline>Dear Bank Support,\<newline>\<newline>I am writing to report an unauthorized transaction on my account.  The transaction was for $1000 on July 23, 2024, and I do not recognize it. My account number is 1234567890. Please investigate this issue immediately.\<newline>\<newline>Sincerely,\<newline>John Smith\<newline>Phone: 555-123-4567\<newline>'';
          attachment_content = ''This is a dummy attachment.'';
          attachment_filename = str ''document.txt''
      in case add_attachment message attachment_content None attachment_filename of
           Inl e \<Rightarrow> Inl e
         | Inr message \<Rightarrow> Inr (as_bytes lib message))"

section \<open>The batch\<close>

text \<open>
  The storage directory is a list of entries in the order of \<open>os.listdir\<close>; an entry is
  a file name with what opening and reading the file gives, the bytes or an exception.
  \<open>main_loop\<close> is the loop of lines 446 to 455: the \<open>try\<close> statement holds the
  reading, the progress line and the call of \<open>process_email\<close>, and the handler prints
  a line that names the file.
\<close>

type_synonym directory = "(pystr \<times> (pyexn + bytes)) list"

fun main_loop :: "(event \<Rightarrow> bool) \<Rightarrow> library \<Rightarrow> directory \<Rightarrow> (world, pyexn + unit) state" where
  "main_loop accepts lib [] = State_Monad.return (Inr ())"
| "main_loop accepts lib ((filename, content) # files) =
     and_then
       (if py_endswith filename (str ''.eml'') then
          try_except
            (case content of
               Inl e \<Rightarrow> State_Monad.return (Inl e)
             | Inr email_bytes \<Rightarrow>
                 and_then (print_on accepts (ProcessingEmail filename))
                   (\<lambda>_. process_email_on accepts lib email_bytes))
            (\<lambda>e. print_on accepts (ErrorReading filename e))
        else State_Monad.return (Inr ()))
       (\<lambda>_. main_loop accepts lib files)"

text \<open>
  \<open>main\<close>, lines 430 to 455: for an empty directory the sample message is created,
  outside any \<open>try\<close>, written to the directory and announced; then the loop runs.
\<close>

definition main :: "(event \<Rightarrow> bool) \<Rightarrow> library \<Rightarrow> directory \<Rightarrow> (world, pyexn + unit) state" where
  "main accepts lib dir =
     (if dir = [] then
        (case create_sample_email lib of
           Inl e \<Rightarrow> State_Monad.return (Inl e)
         | Inr sample_email_bytes \<Rightarrow>
             and_then (print_on accepts CreatedSample)
               (\<lambda>_. main_loop accepts lib [(str ''sample_email.eml'', Inr sample_email_bytes)]))
      else main_loop accepts lib dir)"

text \<open>
  A strict UTF-8 stream: it cannot encode a surrogate code point. A dictionary is
  printed by \<open>repr\<close>, which escapes such a code point, and the text of an exception is
  taken to be encodable; the other strings go into the line as they are.
\<close>

definition utf8_encodable :: "pystr \<Rightarrow> bool" where
  "utf8_encodable s = list_all (\<lambda>c. \<not> (0xD800 \<le> c \<and> c \<le> 0xDFFF)) s"

fun utf8_stdout :: "event \<Rightarrow> bool" where
  "utf8_stdout (Routed destination actions category intent sentiment) =
     (utf8_encodable destination \<and> utf8_encodable category \<and> utf8_encodable intent \<and>
      utf8_encodable sentiment)"
| "utf8_stdout (Category category) = utf8_encodable category"
| "utf8_stdout (Intent intent) = utf8_encodable intent"
| "utf8_stdout (Sentiment sentiment) = utf8_encodable sentiment"
| "utf8_stdout (Summary summary) = utf8_encodable summary"
| "utf8_stdout (RoutingDestination destination) = utf8_encodable destination"
| "utf8_stdout (ProcessingEmail filename) = utf8_encodable filename"
| "utf8_stdout (ErrorReading filename e) = utf8_encodable filename"
| "utf8_stdout _ = True"

text \<open>
  The world in which the script starts as it stands: nothing printed, and no binding
  for \<open>client\<close>, so that every use of the name raises \<open>NameError\<close>.
\<close>

definition initial_world :: world where
  "initial_world =
     \<lparr>stdout = [], client = (\<lambda>n prompt. Inl (NameError (str ''client''))), calls = 0\<rparr>"

section \<open>The routing table as the specification gives it\<close>





section \<open>Entity parsing and scoring as the specification gives them\<close>

text \<open>
  The key and the value of a line that holds a colon: the text before the first colon
  and the text after it, both trimmed. \<open>entity_pairs\<close> lists them for the lines of a
  response that hold a colon, in the order of the lines.
\<close>

definition key_value :: "pystr \<Rightarrow> pystr \<times> pystr" where
  "key_value line =
     (py_strip (takeWhile (\<lambda>c. c \<noteq> colon) line),
      py_strip (tl (dropWhile (\<lambda>c. c \<noteq> colon) line)))"

definition entity_pairs :: "pystr \<Rightarrow> (pystr \<times> pystr) list" where
  "entity_pairs response =
     map key_value (filter (\<lambda>line. colon \<in> set line) (py_splitlines response))"

text \<open>
  The keys of \<open>expected\<close> that \<open>extracted\<close> holds too, and those of them on which the
  two mappings agree.
\<close>

definition total_keys :: "(pystr \<times> pystr) list \<Rightarrow> (pystr \<times> pystr) list \<Rightarrow> nat" where
  "total_keys extracted expected =
     card {k \<in> dom (map_of expected). k \<in> dom (map_of extracted)}"

definition matching_keys :: "(pystr \<times> pystr) list \<Rightarrow> (pystr \<times> pystr) list \<Rightarrow> nat" where
  "matching_keys extracted expected =
     card {k \<in> dom (map_of expected). k \<in> dom (map_of extracted) \<and>
             map_of extracted k = map_of expected k}"

text \<open>A world whose client answers every prompt with the same response.\<close>

definition answering_world :: "pystr \<Rightarrow> world" where
  "answering_world response =
     \<lparr>stdout = [], client = (\<lambda>n prompt. Inr response), calls = 0\<rparr>"

section \<open>What a batch run shows of its messages\<close>

text \<open>
  The lines of the output that tell the progress of a batch: a message is started, a
  file could not be read, a message is ended (by its score or by the report of its
  error). \<open>file_marks\<close> is what one directory entry has to show: nothing for a file
  that is not an \<open>.eml\<close> file, the failure for a file that cannot be read or whose
  progress line cannot be printed, a start and an end for a message.
\<close>

datatype mark = Started pystr | Unreadable pystr pyexn | Ended

fun batch_mark :: "event \<Rightarrow> mark list" where
  "batch_mark (ProcessingEmail filename) = [Started filename]"
| "batch_mark (ErrorReading filename e) = [Unreadable filename e]"
| "batch_mark (SimilarityScore x) = [Ended]"
| "batch_mark (ErrorProcessing e) = [Ended]"
| "batch_mark _ = []"

definition marks :: "world \<Rightarrow> mark list" where
  "marks w = concat (map batch_mark (stdout w))"

definition file_marks :: "(event \<Rightarrow> bool) \<Rightarrow> pystr \<times> (pyexn + bytes) \<Rightarrow> mark list" where
  "file_marks accepts entry =
     (case entry of (filename, content) \<Rightarrow>
        if py_endswith filename (str ''.eml'') then
          (case content of
             Inl e \<Rightarrow> [Unreadable filename e]
           | Inr email_bytes \<Rightarrow>
               if accepts (ProcessingEmail filename) then [Started filename, Ended]
               else [Unreadable filename (UnicodeEncodeError (str ''stdout''))])
        else [])"

text \<open>A computation that adds no mark, and one that adds the end mark unless it raises.\<close>

definition quiet :: "(world, 'a) state \<Rightarrow> bool" where
  "quiet m \<longleftrightarrow> (\<forall>w. marks (snd (run_state m w)) = marks w)"

definition ends_once :: "(world, pyexn + unit) state \<Rightarrow> bool" where
  "ends_once m \<longleftrightarrow>
     (\<forall>w. marks (snd (run_state m w)) =
            marks w @ (case fst (run_state m w) of Inl e \<Rightarrow> [] | Inr u \<Rightarrow> [Ended]))"


definition plain_text_library :: library where
  "plain_text_library =
     \<lparr>parsebytes = (\<lambda>b. if b = ''bad'' then Inl (OtherError (str ''parse''))
                         else Inr (Leaf [(str ''From'', str ''a@b.com'')] (str ''text/plain'') None b)),
      decode_utf8_ignore = map of_char,
      as_bytes = (\<lambda>m. [])\<rparr>"

section \<open>Normalised text\<close>

text \<open>
  A word is a non-empty string without whitespace; \<open>sp\<close> is the separator of line 68.
\<close>

definition is_word :: "pystr \<Rightarrow> bool" where
  "is_word w \<longleftrightarrow> w \<noteq> [] \<and> list_all (\<lambda>c. \<not> isspace c) w"

definition sp :: pystr where "sp = str '' ''"


text \<open>\<open>re.search(r"<[^>]+>", s)\<close> finds a match: a tag starts at some position.\<close>

fun has_tag :: "pystr \<Rightarrow> bool" where
  "has_tag [] = False"
| "has_tag (c # cs) = ((c = lt \<and> match_tag cs \<noteq> None) \<or> has_tag cs)"

text \<open>
  \<open>squeezed n t\<close>: the text \<open>n\<close> comes from \<open>t\<close> by dropping whitespace characters
  and by putting a space where \<open>t\<close> has whitespace.
\<close>

inductive squeezed :: "pystr \<Rightarrow> pystr \<Rightarrow> bool" where
  squeezed_Nil: "squeezed [] []"
| squeezed_keep: "squeezed n t \<Longrightarrow> squeezed (c # n) (c # t)"
| squeezed_drop: "squeezed n t \<Longrightarrow> isspace w \<Longrightarrow> squeezed n (w # t)"
| squeezed_space: "squeezed n (w # t) \<Longrightarrow> isspace w \<Longrightarrow> squeezed (0x20 # n) (w # t)"

section \<open>Facts about strings\<close>

lemma str_eq_iff [simp]: "str a = str b \<longleftrightarrow> a = b"
  by (simp add: str_def inj_on_def)

section \<open>Routing: the table, the outcomes, inert arguments\<close>

lemmas route_defs = route_email_def getitem_def print_def Let_def

lemmas strict_defs = print_on_def and_then_def try_except_def



text \<open>
  Claim C5, as stated, fails: for the category \<open>Fraud Report\<close> and a metadata mapping
  without the key \<open>sender_email\<close>, the subscript of line 263 raises \<open>KeyError\<close>.
\<close>

theorem route_email_keyerror_counterexample:
  "fst (run_state (route_email (str ''Fraud Report'') [] [] [] [] []) initial_world)
     = Inl (KeyError (str ''sender_email''))"
  by (simp add: route_defs)

text \<open>
  Claim C5, amended. On metadata without the key \<open>sender_email\<close>, \<open>route_email\<close>
  raises \<open>KeyError\<close> for the categories \<open>Fraud Report\<close> and \<open>Account Inquiry\<close>, and
  prints nothing. In every other case the chain computes a destination and actions, the
  ones of the run on a stream that encodes everything; then \<open>route_email\<close> returns them
  if the stream can encode the log line of line 294, and raises \<open>UnicodeEncodeError\<close>,
  with nothing printed, if it cannot. So it returns a pair exactly when the sender
  address is there or not needed, and the log line can be encoded.
\<close>

theorem route_email_outcome:
  "(if (category = str ''Fraud Report'' \<or> category = str ''Account Inquiry'') \<and>
       map_of email_metadata (str ''sender_email'') = None
    then run_state (route_email_on accepts category entities intent sentiment summary email_metadata) w
           = (Inl (KeyError (str ''sender_email'')), w)
    else (\<exists>destination actions.
            fst (run_state (route_email category entities intent sentiment summary email_metadata) w)
              = Inr (destination, actions) \<and>
            run_state (route_email_on accepts category entities intent sentiment summary email_metadata) w
              = (if accepts (Routed destination actions category intent sentiment)
                 then (Inr (destination, actions),
                       w\<lparr>stdout := stdout w @ [Routed destination actions category intent sentiment]\<rparr>)
                 else (Inl (UnicodeEncodeError (str ''stdout'')), w))))"
  by (auto simp: route_email_on_def route_defs strict_defs split: option.splits)

theorem route_email_outcome_witness:
  "run_state (route_email_on utf8_stdout (str ''Account Inquiry'') [] [] [] [] []) initial_world
     = (Inl (KeyError (str ''sender_email'')), initial_world) \<and>
   run_state (route_email_on utf8_stdout (str ''Feedback'') [] [0xD800] [] [] []) initial_world
     = (Inl (UnicodeEncodeError (str ''stdout'')), initial_world) \<and>
   fst (run_state (route_email_on utf8_stdout (str ''Feedback'') [] (str ''Provide Feedback'') [] [] [])
          initial_world)
     = Inr (str ''Product Development Department'', [])"
  using route_email_outcome [of "str ''Account Inquiry''" "[]" utf8_stdout "[]" "[]" "[]" "[]" initial_world]
    route_email_outcome [of "str ''Feedback''" "[]" utf8_stdout "[]" "[0xD800]" "[]" "[]" initial_world]
    route_email_outcome [of "str ''Feedback''" "[]" utf8_stdout "[]" "str ''Provide Feedback''" "[]" "[]" initial_world]
  by (simp add: route_defs utf8_encodable_def str_def)


section \<open>The analysis operations\<close>

lemmas analysis_defs = classify_email_def extract_entities_def recognize_intent_def
  analyze_sentiment_def summarize_email_def predict_def print_def



section \<open>Entity extraction\<close>

lemma entity_lines_fold:
  "entity_lines lines d =
     Inr (fold (\<lambda>(k, v). AList.update k v) (map key_value (filter (\<lambda>line. colon \<in> set line) lines)) d)"
  by (induction lines arbitrary: d) (simp_all add: py_split1_def key_value_def)

lemma map_of_fold_update:
  "map_of (fold (\<lambda>(k, v). AList.update k v) ps d) = map_of d ++ map_of (rev ps)"
proof (induction ps arbitrary: d)
  case Nil
  show ?case by simp
next
  case (Cons p ps)
  obtain k v where p: "p = (k, v)" by (cases p)
  have "map_of (fold (\<lambda>(k, v). AList.update k v) (p # ps) d)
          = map_of (AList.update k v d) ++ map_of (rev ps)"
    using Cons.IH [of "AList.update k v d"] by (simp add: p)
  also have "\<dots> = map_of d ++ map_of (rev (p # ps))"
    by (simp add: p update_conv' map_add_upd_left)
  finally show ?case .
qed

lemma distinct_fold_update:
  "distinct (map fst d) \<Longrightarrow> distinct (map fst (fold (\<lambda>(k, v). AList.update k v) ps d))"
  by (induction ps arbitrary: d) (auto simp: distinct_update)

lemma splitlines_example:
  "py_splitlines (str ''Account Number: 123\<newline>Junk line\<newline>Date:2024-01-01'')
     = [str ''Account Number: 123'', str ''Junk line'', str ''Date:2024-01-01'']"
  by (simp add: str_def py_splitlines.simps islinebreak_def)

lemma entity_pairs_example:
  "entity_pairs (str ''Account Number: 123\<newline>Junk line\<newline>Date:2024-01-01'')
     = [(str ''Account Number'', str ''123''), (str ''Date'', str ''2024-01-01'')]"
  unfolding entity_pairs_def splitlines_example
  by (simp add: str_def colon_def key_value_def py_strip_def isspace_def)

text \<open>
  Claim C3. When the client answers with a response text, \<open>extract_entities\<close> returns
  a mapping with distinct keys that sends each key to the value of the last line with
  that key, among the lines of the response that hold a colon, each split at its first
  colon and trimmed on both sides; lines without a colon contribute nothing, and every
  line with a colon contributes its key, whether an entity kind or not. On the response
  of the example the result is the two entries for \<open>Account Number\<close> and \<open>Date\<close>.
\<close>

theorem extract_entities_parse:
  assumes "client w (calls w) (entities_prompt c) = Inr response"
  shows "map_of (fst (run_state (extract_entities c) w)) = map_of (rev (entity_pairs response)) \<and>
         distinct (map fst (fst (run_state (extract_entities c) w))) \<and>
         (\<forall>line \<in> set (py_splitlines response).
            colon \<in> set line \<longrightarrow>
              fst (key_value line) \<in> fst ` set (fst (run_state (extract_entities c) w))) \<and>
         (response = str ''Account Number: 123\<newline>Junk line\<newline>Date:2024-01-01'' \<longrightarrow>
            fst (run_state (extract_entities c) w)
              = [(str ''Account Number'', str ''123''), (str ''Date'', str ''2024-01-01'')])"
proof -
  let ?ps = "entity_pairs response"
  have res: "fst (run_state (extract_entities c) w) = fold (\<lambda>(k, v). AList.update k v) ?ps []"
    using assms by (simp add: analysis_defs entity_lines_fold entity_pairs_def)
  have m: "map_of (fst (run_state (extract_entities c) w)) = map_of (rev ?ps)"
    by (simp add: res map_of_fold_update)
  have d: "distinct (map fst (fst (run_state (extract_entities c) w)))"
    by (simp add: res distinct_fold_update)
  have k: "fst (key_value line) \<in> fst ` set (fst (run_state (extract_entities c) w))"
    if "line \<in> set (py_splitlines response)" and "colon \<in> set line" for line
  proof -
    from that have "key_value line \<in> set (rev ?ps)"
      by (simp add: entity_pairs_def)
    then have "fst (key_value line) \<in> dom (map_of (rev ?ps))"
      by (metis dom_map_of_conv_image_fst image_eqI)
    then show ?thesis
      by (simp add: m [symmetric] dom_map_of_conv_image_fst)
  qed
  have ex: "fst (run_state (extract_entities c) w)
              = [(str ''Account Number'', str ''123''), (str ''Date'', str ''2024-01-01'')]"
    if "response = str ''Account Number: 123\<newline>Junk line\<newline>Date:2024-01-01''"
    unfolding res that entity_pairs_example
    by simp
  from m d k ex show ?thesis by blast
qed

theorem extract_entities_parse_witness:
  "client (answering_world (str ''Amount: 5\<newline>Colour: red\<newline>Amount: 7''))
      (calls (answering_world (str ''Amount: 5\<newline>Colour: red\<newline>Amount: 7'')))
      (entities_prompt []) = Inr (str ''Amount: 5\<newline>Colour: red\<newline>Amount: 7'') \<and>
   distinct (map fst (fst (run_state (extract_entities [])
      (answering_world (str ''Amount: 5\<newline>Colour: red\<newline>Amount: 7'')))))"
  using extract_entities_parse [of "answering_world (str ''Amount: 5\<newline>Colour: red\<newline>Amount: 7'')"
      "[]" "str ''Amount: 5\<newline>Colour: red\<newline>Amount: 7''"]
  by (simp add: answering_world_def)

section \<open>Similarity score\<close>

lemma counts_fold:
  "fold (\<lambda>key (match_count, total_count).
             if map_of extracted key \<noteq> None then
               (if map_of extracted key = map_of expected key
                then match_count + 1 else match_count,
                total_count + 1)
             else (match_count, total_count)) ks (m, t)
   = (m + length (filter (\<lambda>k. map_of extracted k \<noteq> None \<and> map_of extracted k = map_of expected k) ks),
      t + length (filter (\<lambda>k. map_of extracted k \<noteq> None) ks))"
  by (induction ks arbitrary: m t) simp_all

lemma similarity_counts_card:
  assumes "distinct (map fst expected)"
  shows "similarity_counts extracted expected
           = (matching_keys extracted expected, total_keys extracted expected)"
proof -
  have d: "dom (map_of expected) = set (map fst expected)"
    by (simp add: dom_map_of_conv_image_fst)
  have "{k \<in> dom (map_of expected). k \<in> dom (map_of extracted)}
          = {k. map_of extracted k \<noteq> None} \<inter> set (map fst expected)"
    unfolding d by (auto simp: dom_def)
  then have t: "total_keys extracted expected
          = length (filter (\<lambda>k. map_of extracted k \<noteq> None) (map fst expected))"
    unfolding total_keys_def using assms by (simp only: distinct_length_filter)
  have "{k \<in> dom (map_of expected). k \<in> dom (map_of extracted) \<and>
             map_of extracted k = map_of expected k}
          = {k. map_of extracted k \<noteq> None \<and> map_of extracted k = map_of expected k}
              \<inter> set (map fst expected)"
    unfolding d by (auto simp: dom_def)
  then have m: "matching_keys extracted expected
          = length (filter (\<lambda>k. map_of extracted k \<noteq> None \<and>
                                 map_of extracted k = map_of expected k) (map fst expected))"
    unfolding matching_keys_def using assms by (simp only: distinct_length_filter)
  show ?thesis
    unfolding similarity_counts_def counts_fold t m by simp
qed

lemma matching_le_total: "matching_keys extracted expected \<le> total_keys extracted expected"
  unfolding matching_keys_def total_keys_def
  by (rule card_mono) (auto simp: dom_map_of_conv_image_fst)

lemma score_example1:
  "calculate_similarity_score [(str ''Account Number'', str ''123'')]
       [(str ''Account Number'', str ''123''), (str ''Date'', str ''N/A'')] = 1"
  by (simp add: calculate_similarity_score_def similarity_counts_def)

lemma score_example2: "calculate_similarity_score [] [] = 0"
  by (simp add: calculate_similarity_score_def similarity_counts_def)

text \<open>
  Claim C4. For an \<open>expected\<close> mapping (its keys distinct, as those of a dictionary
  are), \<open>calculate_similarity_score\<close> is the number of keys of \<open>expected\<close> present in
  \<open>extracted\<close> with an equal value, divided by the number of keys of \<open>expected\<close>
  present in \<open>extracted\<close>, and 0 when the latter number is 0; the score lies between
  0 and 1; the two examples score 1 and 0.
\<close>

theorem similarity_score_ratio:
  assumes "distinct (map fst expected)"
  shows "calculate_similarity_score extracted expected
           = (if total_keys extracted expected = 0 then 0
              else real (matching_keys extracted expected) / real (total_keys extracted expected)) \<and>
         0 \<le> calculate_similarity_score extracted expected \<and>
         calculate_similarity_score extracted expected \<le> 1 \<and>
         calculate_similarity_score [(str ''Account Number'', str ''123'')]
           [(str ''Account Number'', str ''123''), (str ''Date'', str ''N/A'')] = 1 \<and>
         calculate_similarity_score [] [] = 0"
proof -
  have eq: "calculate_similarity_score extracted expected
           = (if total_keys extracted expected = 0 then 0
              else real (matching_keys extracted expected) / real (total_keys extracted expected))"
    by (simp add: calculate_similarity_score_def similarity_counts_card [OF assms])
  have "0 \<le> calculate_similarity_score extracted expected"
    unfolding eq by simp
  moreover have "calculate_similarity_score extracted expected \<le> 1"
    unfolding eq using matching_le_total [of extracted expected] by simp
  ultimately show ?thesis
    using eq score_example1 score_example2 by blast
qed

theorem similarity_score_ratio_witness:
  "distinct (map fst [(str ''Account Number'', str ''123''), (str ''Date'', str ''N/A'')]) \<and>
   0 \<le> calculate_similarity_score [(str ''Account Number'', str ''999'')]
         [(str ''Account Number'', str ''123''), (str ''Date'', str ''N/A'')] \<and>
   calculate_similarity_score [(str ''Account Number'', str ''999'')]
         [(str ''Account Number'', str ''123''), (str ''Date'', str ''N/A'')] \<le> 1"
  using similarity_score_ratio [of "[(str ''Account Number'', str ''123''), (str ''Date'', str ''N/A'')]"
      "[(str ''Account Number'', str ''999'')]"]
  by simp

section \<open>A multipart message without plain text\<close>




section \<open>A stream that encodes every line\<close>

text \<open>
  On a stream that accepts every line, the functions of the script are the ones given
  first, with the total \<open>print\<close>.
\<close>

lemma print_on_all_encodable:
  "run_state (print_on (\<lambda>e. True) e) w = (Inr (), snd (run_state (print e) w))"
  by (simp add: print_on_def print_def)

lemma route_email_on_all_encodable:
  "route_email_on (\<lambda>e. True) category entities intent sentiment summary email_metadata
     = route_email category entities intent sentiment summary email_metadata"
  by (rule state_ext)
     (simp add: route_email_on_def route_defs strict_defs split: option.splits)

lemma classify_email_on_all_encodable:
  "run_state (classify_email_on (\<lambda>e. True) c) w
     = (Inr (fst (run_state (classify_email c) w)), snd (run_state (classify_email c) w))"
  by (simp add: classify_email_on_def analysis_defs strict_defs split: sum.splits)

lemma extract_entities_on_all_encodable:
  "run_state (extract_entities_on (\<lambda>e. True) c) w
     = (Inr (fst (run_state (extract_entities c) w)), snd (run_state (extract_entities c) w))"
  by (simp add: extract_entities_on_def analysis_defs strict_defs split: sum.splits)

lemma recognize_intent_on_all_encodable:
  "run_state (recognize_intent_on (\<lambda>e. True) c) w
     = (Inr (fst (run_state (recognize_intent c) w)), snd (run_state (recognize_intent c) w))"
  by (simp add: recognize_intent_on_def analysis_defs strict_defs split: sum.splits)

lemma analyze_sentiment_on_all_encodable:
  "run_state (analyze_sentiment_on (\<lambda>e. True) c) w
     = (Inr (fst (run_state (analyze_sentiment c) w)), snd (run_state (analyze_sentiment c) w))"
  by (simp add: analyze_sentiment_on_def analysis_defs strict_defs split: sum.splits)

lemma summarize_email_on_all_encodable:
  "run_state (summarize_email_on (\<lambda>e. True) c) w
     = (Inr (fst (run_state (summarize_email c) w)), snd (run_state (summarize_email c) w))"
  by (simp add: summarize_email_on_def analysis_defs strict_defs split: sum.splits)

lemma run_and_then:
  "run_state (and_then m f) w =
     (case run_state m w of (Inl e, w') \<Rightarrow> (Inl e, w') | (Inr x, w') \<Rightarrow> run_state (f x) w')"
  by (simp add: and_then_def split: prod.splits sum.splits)

lemma analyze_and_route_on_all_encodable:
  "analyze_and_route_on (\<lambda>e. True) email_metadata email_content
     = analyze_and_route email_metadata email_content"
  by (rule state_ext)
     (simp add: analyze_and_route_on_def analyze_and_route_def Let_def run_and_then
        classify_email_on_all_encodable extract_entities_on_all_encodable
        recognize_intent_on_all_encodable analyze_sentiment_on_all_encodable
        summarize_email_on_all_encodable route_email_on_all_encodable print_on_all_encodable
        print_def split: prod.splits sum.splits)

lemma process_email_try_on_all_encodable:
  "process_email_try_on (\<lambda>e. True) lib email_bytes = process_email_try lib email_bytes"
  by (rule state_ext)
     (simp add: process_email_try_on_def process_email_try_def run_and_then
        analyze_and_route_on_all_encodable print_on_all_encodable print_def split: sum.splits)

lemma process_email_on_all_encodable:
  "run_state (process_email_on (\<lambda>e. True) lib email_bytes) w
     = (Inr (), snd (run_state (process_email lib email_bytes) w))"
  by (simp add: process_email_on_def process_email_def try_except_def
      process_email_try_on_all_encodable print_on_def print_def split: prod.splits sum.splits)

section \<open>Fault isolation\<close>

lemma quiet_return: "quiet (State_Monad.return x)"
  by (simp add: quiet_def)

lemma quiet_predict: "quiet (predict prompt)"
  by (simp add: quiet_def predict_def marks_def)

lemma quiet_bind: "quiet m \<Longrightarrow> (\<And>x. quiet (f x)) \<Longrightarrow> quiet (State_Monad.bind m f)"
  by (simp add: quiet_def split: prod.splits) (metis snd_conv)

lemma quiet_print_on: "batch_mark e = [] \<Longrightarrow> quiet (print_on accepts e)"
  by (simp add: quiet_def print_on_def marks_def)

lemma quiet_and_then: "quiet m \<Longrightarrow> (\<And>x. quiet (f x)) \<Longrightarrow> quiet (and_then m f)"
  unfolding and_then_def
  by (rule quiet_bind) (auto split: sum.splits intro: quiet_return)

lemma quiet_try_except: "quiet m \<Longrightarrow> (\<And>e. quiet (h e)) \<Longrightarrow> quiet (try_except m h)"
  unfolding try_except_def
  by (rule quiet_bind) (auto split: sum.splits intro: quiet_return)

lemmas quiet_intros = quiet_try_except quiet_and_then quiet_bind quiet_predict quiet_print_on
  quiet_return

lemma quiet_classify_email_on: "quiet (classify_email_on accepts c)"
  unfolding classify_email_on_def by (intro quiet_intros) simp_all

lemma quiet_extract_entities_on: "quiet (extract_entities_on accepts c)"
  unfolding extract_entities_on_def by (intro quiet_intros) simp_all

lemma quiet_recognize_intent_on: "quiet (recognize_intent_on accepts c)"
  unfolding recognize_intent_on_def by (intro quiet_intros) simp_all

lemma quiet_analyze_sentiment_on: "quiet (analyze_sentiment_on accepts c)"
  unfolding analyze_sentiment_on_def by (intro quiet_intros) simp_all

lemma quiet_summarize_email_on: "quiet (summarize_email_on accepts c)"
  unfolding summarize_email_on_def by (intro quiet_intros) simp_all

lemma quiet_route_email_on:
  "quiet (route_email_on accepts category entities intent sentiment summary email_metadata)"
  by (simp add: quiet_def marks_def route_email_on_def getitem_def Let_def strict_defs
      split: option.splits)

lemma ends_once_raise: "ends_once (State_Monad.return (Inl e))"
  by (simp add: ends_once_def)

lemma ends_once_and_then:
  "quiet m \<Longrightarrow> (\<And>x. ends_once (f x)) \<Longrightarrow> ends_once (and_then m f)"
  by (simp add: quiet_def ends_once_def and_then_def split: prod.splits sum.splits)
     (metis snd_conv)

lemma ends_once_score: "ends_once (print_on accepts (SimilarityScore x))"
  by (simp add: ends_once_def print_on_def marks_def)

lemma ends_once_analyze_and_route_on:
  "ends_once (analyze_and_route_on accepts email_metadata email_content)"
  unfolding analyze_and_route_on_def Let_def
  by (intro ends_once_and_then quiet_classify_email_on quiet_extract_entities_on
      quiet_recognize_intent_on quiet_analyze_sentiment_on quiet_summarize_email_on
      quiet_route_email_on quiet_print_on)
     (auto split: prod.splits intro!: ends_once_and_then quiet_print_on ends_once_score)

lemma ends_once_process_email_try_on: "ends_once (process_email_try_on accepts lib email_bytes)"
  unfolding process_email_try_on_def
  by (auto split: sum.splits
      intro!: ends_once_raise ends_once_and_then quiet_print_on ends_once_analyze_and_route_on)

lemma process_email_on_handler:
  assumes "run_state (process_email_try_on accepts lib email_bytes) w = (Inl e, w')"
  shows "run_state (process_email_on accepts lib email_bytes) w
           = (if accepts (ErrorProcessing e)
              then (Inr (), w'\<lparr>stdout := stdout w' @ [ErrorProcessing e]\<rparr>)
              else (Inl (UnicodeEncodeError (str ''stdout'')), w'))"
  using assms by (simp add: process_email_on_def strict_defs)

lemma process_email_on_returns:
  assumes "\<forall>e. accepts (ErrorProcessing e)"
  shows "fst (run_state (process_email_on accepts lib email_bytes) w) = Inr () \<and>
         marks (snd (run_state (process_email_on accepts lib email_bytes) w)) = marks w @ [Ended]"
proof (cases "run_state (process_email_try_on accepts lib email_bytes) w")
  case (Pair r w')
  have m: "marks w' = marks w @ (case r of Inl e \<Rightarrow> [] | Inr u \<Rightarrow> [Ended])"
    using ends_once_process_email_try_on [of accepts lib email_bytes] Pair
    by (simp add: ends_once_def) (metis fst_conv snd_conv)
  show ?thesis
  proof (cases r)
    case (Inl e)
    with Pair m assms show ?thesis
      by (simp add: process_email_on_def strict_defs marks_def)
  next
    case (Inr u)
    with Pair m show ?thesis
      by (simp add: process_email_on_def strict_defs)
  qed
qed

lemma main_loop_completes:
  assumes "\<forall>e. accepts (ErrorProcessing e)"
      and "\<forall>entry \<in> set dir. \<forall>e. accepts (ErrorReading (fst entry) e)"
  shows "fst (run_state (main_loop accepts lib dir) w) = Inr () \<and>
         marks (snd (run_state (main_loop accepts lib dir) w))
           = marks w @ concat (map (file_marks accepts) dir)"
  using assms(2)
proof (induction dir arbitrary: w)
  case Nil
  show ?case by simp
next
  case (Cons entry dir)
  obtain filename content where entry: "entry = (filename, content)"
    by (cases entry)
  from Cons.prems have rd: "\<And>e. accepts (ErrorReading filename e)"
    and rest: "\<forall>entry \<in> set dir. \<forall>e. accepts (ErrorReading (fst entry) e)"
    by (simp_all add: entry)
  define step :: "(world, pyexn + unit) state" where
    "step = (if py_endswith filename (str ''.eml'') then
          try_except
            (case content of
               Inl e \<Rightarrow> State_Monad.return (Inl e)
             | Inr email_bytes \<Rightarrow>
                 and_then (print_on accepts (ProcessingEmail filename))
                   (\<lambda>_. process_email_on accepts lib email_bytes))
            (\<lambda>e. print_on accepts (ErrorReading filename e))
        else State_Monad.return (Inr ()))"
  have step: "fst (run_state step w) = Inr () \<and>
              marks (snd (run_state step w)) = marks w @ file_marks accepts entry"
  proof (cases "py_endswith filename (str ''.eml'')")
    case False
    then show ?thesis by (simp add: step_def file_marks_def entry)
  next
    case True
    show ?thesis
    proof (cases content)
      case (Inl e)
      with True rd show ?thesis
        by (simp add: step_def file_marks_def entry strict_defs marks_def)
    next
      case (Inr email_bytes)
      show ?thesis
      proof (cases "accepts (ProcessingEmail filename)")
        case False
        with True Inr rd show ?thesis
          by (simp add: step_def file_marks_def entry strict_defs marks_def)
      next
        case acc: True
        let ?w1 = "w\<lparr>stdout := stdout w @ [ProcessingEmail filename]\<rparr>"
        have "fst (run_state (process_email_on accepts lib email_bytes) ?w1) = Inr () \<and>
              marks (snd (run_state (process_email_on accepts lib email_bytes) ?w1))
                = marks ?w1 @ [Ended]"
          by (rule process_email_on_returns [OF assms(1)])
        then obtain w2 where
          run: "run_state (process_email_on accepts lib email_bytes) ?w1 = (Inr (), w2)"
          and m2: "marks w2 = marks ?w1 @ [Ended]"
          by (cases "run_state (process_email_on accepts lib email_bytes) ?w1") auto
        from True Inr acc run have "run_state step w = (Inr (), w2)"
          by (simp add: step_def strict_defs)
        with True Inr acc m2 show ?thesis
          by (simp add: file_marks_def entry marks_def)
      qed
    qed
  qed
  have loop: "main_loop accepts lib (entry # dir) = and_then step (\<lambda>_. main_loop accepts lib dir)"
    by (simp add: entry step_def)
  obtain w1 where w1: "run_state step w = (Inr (), w1)"
    using step by (cases "run_state step w") auto
  have "run_state (main_loop accepts lib (entry # dir)) w = run_state (main_loop accepts lib dir) w1"
    unfolding loop by (simp add: and_then_def w1)
  then show ?case
    using Cons.IH [OF rest, of w1] step w1 by simp
qed

lemma main_nonempty: "dir \<noteq> [] \<Longrightarrow> main accepts lib dir = main_loop accepts lib dir"
  by (simp add: main_def)

text \<open>
  On an empty directory \<open>main\<close> stops at line 440: the creation of the sample message
  raises \<open>TypeError\<close> outside any \<open>try\<close>, and nothing is processed.
\<close>

lemma main_empty_directory_raises:
  "run_state (main accepts lib []) w = (Inl (TypeError (str ''missing maintype and subtype'')), w)"
  by (simp add: main_def create_sample_email_def add_attachment_def)

text \<open>
  Claim C6, as stated, fails. On a strict UTF-8 stream and a directory whose first
  \<open>.eml\<close> file has a name with a surrogate code point (an undecodable byte of the
  file name), the progress line of line 452 raises inside the \<open>try\<close> statement, the
  handler of line 455 prints the same name and raises again, and \<open>main\<close> ends with
  \<open>UnicodeEncodeError\<close>: the second message is never started.
\<close>

theorem unprintable_file_name_counterexample:
  "fst (run_state
     (main utf8_stdout plain_text_library
        [(0xDCFF # str ''.eml'', Inr ''Hello''), (str ''c.eml'', Inr ''Hello'')])
     initial_world) = Inl (UnicodeEncodeError (str ''stdout'')) \<and>
   marks (snd (run_state
     (main utf8_stdout plain_text_library
        [(0xDCFF # str ''.eml'', Inr ''Hello''), (str ''c.eml'', Inr ''Hello'')])
     initial_world)) = []"
  by (simp add: main_def strict_defs py_endswith_def utf8_encodable_def str_def initial_world_def
      marks_def)

text \<open>
  Claim C6, amended. Let the stream be able to encode the line of the handler of
  \<open>process_email\<close> for every exception, and the line of the handler of the loop for
  every file name of the directory. Then an exception raised inside the \<open>try\<close> body of
  \<open>process_email\<close> (by the parser, the body selection, the routing or a \<open>print\<close>)
  ends in the handler, which prints it, and \<open>process_email\<close> returns, with exactly one
  end mark added to the output. The loop over the directory runs to its end and shows,
  for every \<open>.eml\<close> entry in order, either the failure caught by the handler of the
  loop (the file could not be read, or its progress line could not be printed) or the
  start and the end of the message: no message keeps a later one from being processed.
  On a directory that is not empty \<open>main\<close> is this loop.
\<close>

theorem fault_isolation:
  assumes "\<forall>e. accepts (ErrorProcessing e)"
      and "\<forall>entry \<in> set dir. \<forall>e. accepts (ErrorReading (fst entry) e)"
  shows "(\<forall>e w'. run_state (process_email_try_on accepts lib email_bytes) w = (Inl e, w') \<longrightarrow>
            run_state (process_email_on accepts lib email_bytes) w
              = (Inr (), w'\<lparr>stdout := stdout w' @ [ErrorProcessing e]\<rparr>)) \<and>
         fst (run_state (process_email_on accepts lib email_bytes) w) = Inr () \<and>
         marks (snd (run_state (process_email_on accepts lib email_bytes) w)) = marks w @ [Ended] \<and>
         fst (run_state (main_loop accepts lib dir) w) = Inr () \<and>
         marks (snd (run_state (main_loop accepts lib dir) w))
           = marks w @ concat (map (file_marks accepts) dir) \<and>
         (dir \<noteq> [] \<longrightarrow> main accepts lib dir = main_loop accepts lib dir)"
proof -
  have "run_state (process_email_on accepts lib email_bytes) w
          = (Inr (), w'\<lparr>stdout := stdout w' @ [ErrorProcessing e]\<rparr>)"
    if "run_state (process_email_try_on accepts lib email_bytes) w = (Inl e, w')" for e w'
    using process_email_on_handler [OF that] assms(1) by simp
  then show ?thesis
    using process_email_on_returns [OF assms(1), of lib email_bytes w]
      main_loop_completes [OF assms, of lib w] main_nonempty [of dir accepts lib]
    by blast
qed

theorem fault_isolation_witness:
  "run_state (process_email_on utf8_stdout plain_text_library ''bad'') initial_world
     = (Inr (), initial_world\<lparr>stdout := [ErrorProcessing (OtherError (str ''parse''))]\<rparr>) \<and>
   fst (run_state
     (main utf8_stdout plain_text_library
        [(str ''a.eml'', Inr ''bad''), (str ''notes.txt'', Inr ''x''),
         (str ''b.eml'', Inl (OtherError (str ''open''))), (str ''c.eml'', Inr ''Hello'')])
     initial_world) = Inr () \<and>
   marks (snd (run_state
     (main utf8_stdout plain_text_library
        [(str ''a.eml'', Inr ''bad''), (str ''notes.txt'', Inr ''x''),
         (str ''b.eml'', Inl (OtherError (str ''open''))), (str ''c.eml'', Inr ''Hello'')])
     initial_world))
   = [Started (str ''a.eml''), Ended, Unreadable (str ''b.eml'') (OtherError (str ''open'')),
      Started (str ''c.eml''), Ended]"
  using fault_isolation [of utf8_stdout
      "[(str ''a.eml'', Inr ''bad''), (str ''notes.txt'', Inr ''x''),
        (str ''b.eml'', Inl (OtherError (str ''open''))), (str ''c.eml'', Inr ''Hello'')]"
      plain_text_library "''bad''" initial_world]
  by (simp add: process_email_try_on_def extract_email_metadata_def plain_text_library_def
      initial_world_def marks_def file_marks_def py_endswith_def utf8_encodable_def str_def)

section \<open>Content normalisation: tags and whitespace\<close>

lemma py_split_Nil [simp]: "py_split [] = []"
  by (simp add: py_split.simps)

lemma py_split_space [simp]: "isspace c \<Longrightarrow> py_split (c # s) = py_split s"
  by (subst py_split.simps, subst (2) py_split.simps) simp

lemma py_split_word:
  assumes "is_word x" and "rest = [] \<or> isspace (hd rest)"
  shows "py_split (x @ rest) = x # py_split rest"
proof -
  from assms(1) obtain c cs where x: "x = c # cs" and c: "\<not> isspace c"
    and cs: "\<forall>d \<in> set cs. \<not> isspace d"
    by (cases x) (auto simp: is_word_def list_all_iff)
  have all: "\<forall>d \<in> set x. \<not> isspace d"
    using x c cs by simp
  have d: "dropWhile isspace (x @ rest) = x @ rest"
    using x c by simp
  have t: "takeWhile (\<lambda>c. \<not> isspace c) (x @ rest) = x"
    using all assms(2) by (cases rest) (simp_all add: takeWhile_append2)
  have r: "dropWhile (\<lambda>c. \<not> isspace c) (x @ rest) = rest"
    using all assms(2) by (cases rest) (simp_all add: dropWhile_append2)
  have ne: "x \<noteq> []"
    using x by simp
  show ?thesis
    by (subst py_split.simps) (simp add: d t r ne Let_def)
qed

lemma py_split_words: "list_all is_word (py_split s)"
proof (induction s rule: py_split.induct)
  case (1 s)
  show ?case
  proof (cases "dropWhile isspace s = []")
    case True
    then show ?thesis by (subst py_split.simps) simp
  next
    case False
    then have h: "\<not> isspace (hd (dropWhile isspace s))"
      by (rule hd_dropWhile)
    have "is_word (takeWhile (\<lambda>c. \<not> isspace c) (dropWhile isspace s))"
      using False h
      by (cases "dropWhile isspace s") (auto simp: is_word_def list_all_iff dest: set_takeWhileD)
    moreover have "list_all is_word (py_split (dropWhile (\<lambda>c. \<not> isspace c) (dropWhile isspace s)))"
      using "1.IH" [OF refl False] .
    ultimately show ?thesis
      using False by (subst py_split.simps) (simp add: Let_def)
  qed
qed

lemma join_sp_cons:
  "py_join sp (x # xs) = (if xs = [] then x else x @ 32 # py_join sp xs)"
  by (cases xs) (simp_all add: sp_def str_def)

lemma py_split_join: "list_all is_word ws \<Longrightarrow> py_split (py_join sp ws) = ws"
proof (induction ws)
  case Nil
  show ?case by simp
next
  case (Cons x ws)
  then have x: "is_word x" and ws: "list_all is_word ws" by simp_all
  show ?case
  proof (cases "ws = []")
    case True
    with py_split_word [OF x, of "[]"] show ?thesis
      by (simp add: join_sp_cons)
  next
    case False
    have "py_split (x @ 32 # py_join sp ws) = x # py_split (32 # py_join sp ws)"
      by (rule py_split_word [OF x]) (simp add: isspace_def)
    also have "py_split (32 # py_join sp ws) = py_split (py_join sp ws)"
      by (rule py_split_space) (simp add: isspace_def)
    finally show ?thesis
      using False Cons.IH [OF ws] by (simp add: join_sp_cons)
  qed
qed

lemma gt_neq_lt [simp]: "gt \<noteq> lt" "lt \<noteq> gt"
  by (simp_all add: gt_def lt_def)


lemma is_word_nonempty: "is_word x \<Longrightarrow> x @ r \<noteq> []"
  by (simp add: is_word_def)



lemma match_tag_Some_iff:
  "match_tag cs = Some rest \<longleftrightarrow>
     (\<exists>inner. inner \<noteq> [] \<and> gt \<notin> set inner \<and> cs = inner @ gt # rest)"
proof
  assume m: "match_tag cs = Some rest"
  let ?inner = "takeWhile (\<lambda>c. c \<noteq> gt) cs"
  let ?rest = "dropWhile (\<lambda>c. c \<noteq> gt) cs"
  from m have i: "?inner \<noteq> []" and r: "?rest \<noteq> []" and t: "rest = tl ?rest"
    by (simp_all add: match_tag_def Let_def split: if_splits)
  from r have "hd ?rest = gt"
    using hd_dropWhile [of "\<lambda>c. c \<noteq> gt" cs] by simp
  with r t have "?rest = gt # rest"
    by (cases ?rest) simp_all
  then have "cs = ?inner @ gt # rest"
    using takeWhile_dropWhile_id [of "\<lambda>c. c \<noteq> gt" cs] by simp
  moreover have "gt \<notin> set ?inner"
    by (auto dest: set_takeWhileD)
  ultimately show "\<exists>inner. inner \<noteq> [] \<and> gt \<notin> set inner \<and> cs = inner @ gt # rest"
    using i by blast
next
  assume "\<exists>inner. inner \<noteq> [] \<and> gt \<notin> set inner \<and> cs = inner @ gt # rest"
  then obtain inner where i: "inner \<noteq> []" and g: "gt \<notin> set inner" and cs: "cs = inner @ gt # rest"
    by blast
  from g have a: "\<And>x. x \<in> set inner \<Longrightarrow> x \<noteq> gt" by blast
  have "takeWhile (\<lambda>c. c \<noteq> gt) cs = inner" and "dropWhile (\<lambda>c. c \<noteq> gt) cs = gt # rest"
    unfolding cs using a by (simp_all add: takeWhile_append2 dropWhile_append2)
  with i show "match_tag cs = Some rest"
    by (simp add: match_tag_def)
qed

lemma match_tag_None_iff:
  "match_tag cs = None \<longleftrightarrow> cs = [] \<or> hd cs = gt \<or> gt \<notin> set cs"
proof (cases cs)
  case Nil
  then show ?thesis by (simp add: match_tag_def)
next
  case (Cons c r)
  show ?thesis
  proof (cases "c = gt")
    case True
    with Cons show ?thesis by (simp add: match_tag_def)
  next
    case False
    have "dropWhile (\<lambda>c. c \<noteq> gt) cs = [] \<longleftrightarrow> gt \<notin> set cs"
      by (auto simp: dropWhile_eq_Nil_conv)
    with False Cons show ?thesis
      by (simp add: match_tag_def Let_def)
  qed
qed

lemma set_re_sub_tags: "set (re_sub_tags s) \<subseteq> set s"
proof (induction s rule: re_sub_tags.induct)
  case 1
  show ?case by simp
next
  case (2 c cs)
  show ?case
  proof (cases "c = lt")
    case False
    with "2.IH"(3) show ?thesis by auto
  next
    case True
    show ?thesis
    proof (cases "match_tag cs")
      case None
      with True "2.IH"(1) show ?thesis by auto
    next
      case (Some rest)
      then have "set rest \<subseteq> set cs"
        by (auto simp: match_tag_Some_iff)
      with True Some "2.IH"(2) [OF True Some] show ?thesis by auto
    qed
  qed
qed

lemma hd_re_sub_tags_gt: "re_sub_tags (gt # r) = gt # re_sub_tags r"
  by simp

lemma match_tag_re_sub_tags:
  assumes "match_tag cs = None"
  shows "match_tag (re_sub_tags cs) = None"
proof -
  from assms consider "cs = []" | r where "cs = gt # r" | "gt \<notin> set cs"
    by (cases cs) (auto simp: match_tag_None_iff)
  then show ?thesis
  proof cases
    case 1
    then show ?thesis by (simp add: match_tag_None_iff)
  next
    case 2
    then show ?thesis by (simp add: hd_re_sub_tags_gt match_tag_None_iff)
  next
    case 3
    with set_re_sub_tags [of cs] have "gt \<notin> set (re_sub_tags cs)" by blast
    then show ?thesis by (simp add: match_tag_None_iff)
  qed
qed

lemma no_tag_re_sub_tags: "\<not> has_tag (re_sub_tags s)"
proof (induction s rule: re_sub_tags.induct)
  case 1
  show ?case by simp
next
  case (2 c cs)
  show ?case
  proof (cases "c = lt")
    case False
    with "2.IH"(3) show ?thesis by simp
  next
    case True
    show ?thesis
    proof (cases "match_tag cs")
      case None
      with True "2.IH"(1) [OF True None] match_tag_re_sub_tags [OF None] show ?thesis by simp
    next
      case (Some rest)
      with True "2.IH"(2) [OF True Some] show ?thesis by simp
    qed
  qed
qed

lemma re_sub_tags_id: "\<not> has_tag s \<Longrightarrow> re_sub_tags s = s"
  by (induction s rule: re_sub_tags.induct) (auto split: option.splits)



lemma not_isspace_gt [simp]: "\<not> isspace gt"
  by (simp add: isspace_def gt_def)

lemma space_neq [simp]: "0x20 \<noteq> gt" "0x20 \<noteq> lt" "gt \<noteq> 0x20" "lt \<noteq> 0x20"
  by (simp_all add: gt_def lt_def)

lemma match_tag_Cons: "match_tag (c # cs) = None \<longleftrightarrow> c = gt \<or> gt \<notin> set cs"
  by (auto simp: match_tag_None_iff)

lemma match_tag_gt: "gt \<notin> set n \<Longrightarrow> match_tag n = None"
  by (simp add: match_tag_None_iff)

lemma squeezed_tags:
  "squeezed n t \<Longrightarrow>
     (gt \<in> set n \<longrightarrow> gt \<in> set t) \<and>
     (match_tag t = None \<longrightarrow> match_tag n = None) \<and>
     (has_tag n \<longrightarrow> has_tag t)"
proof (induction rule: squeezed.induct)
  case squeezed_Nil
  show ?case by simp
next
  case (squeezed_keep n t c)
  then show ?case
    by (auto simp: match_tag_Cons simp del: not_None_eq)
next
  case (squeezed_drop n t w)
  then have "w \<noteq> gt" by auto
  with squeezed_drop show ?case
    by (auto simp: match_tag_Cons simp del: not_None_eq intro: match_tag_gt)
next
  case (squeezed_space n w t)
  then have "w \<noteq> gt" by auto
  with squeezed_space show ?case
    by (auto simp: match_tag_Cons simp del: not_None_eq)
qed

lemma squeezed_prefix: "squeezed n t \<Longrightarrow> squeezed (x @ n) (x @ t)"
  by (induction x) (auto intro: squeezed.intros)

lemma squeezed_ws: "list_all isspace ws \<Longrightarrow> squeezed n t \<Longrightarrow> squeezed n (ws @ t)"
  by (induction ws) (auto intro: squeezed.intros)

lemma squeezed_join_split: "squeezed (py_join sp (py_split s)) s"
proof (induction s rule: py_split.induct)
  case (1 s)
  let ?ws = "takeWhile isspace s"
  let ?s' = "dropWhile isspace s"
  have s: "s = ?ws @ ?s'" by simp
  have ws: "list_all isspace ?ws"
    by (auto simp: list_all_iff dest: set_takeWhileD)
  show ?case
  proof (cases "?s' = []")
    case True
    then have "py_split s = []"
      by (subst py_split.simps) simp
    moreover have "squeezed [] (?ws @ [])"
      by (rule squeezed_ws [OF ws squeezed_Nil])
    ultimately show ?thesis
      using True s by (metis py_join.simps(1))
  next
    case False
    let ?x = "takeWhile (\<lambda>c. \<not> isspace c) ?s'"
    let ?rest = "dropWhile (\<lambda>c. \<not> isspace c) ?s'"
    have split: "py_split s = ?x # py_split ?rest"
      using False by (subst py_split.simps) (simp add: Let_def)
    have s': "?s' = ?x @ ?rest" by simp
    have IH: "squeezed (py_join sp (py_split ?rest)) ?rest"
      using "1.IH" [OF refl False] .
    have "squeezed (py_join sp (?x # py_split ?rest)) (?x @ ?rest)"
    proof (cases "py_split ?rest = []")
      case True
      with IH have "squeezed [] ?rest" by simp
      then have "squeezed (?x @ []) (?x @ ?rest)" by (rule squeezed_prefix)
      with True show ?thesis by (simp add: join_sp_cons)
    next
      case ne: False
      then have "?rest \<noteq> []" using py_split_Nil by fastforce
      then obtain w r where rest: "?rest = w # r" and w: "isspace w"
        using hd_dropWhile [of "\<lambda>c. \<not> isspace c" ?s'] by (cases ?rest) auto
      from IH w have "squeezed (0x20 # py_join sp (py_split ?rest)) ?rest"
        unfolding rest by (rule squeezed_space)
      then have "squeezed (?x @ 0x20 # py_join sp (py_split ?rest)) (?x @ ?rest)"
        by (rule squeezed_prefix)
      with ne show ?thesis by (simp add: join_sp_cons)
    qed
    then have "squeezed (py_join sp (py_split s)) (?ws @ ?x @ ?rest)"
      unfolding split by (rule squeezed_ws [OF ws])
    then show ?thesis
      using s s' by metis
  qed
qed


lemma clean_eq: "clean_email_content s = py_join sp (py_split (re_sub_tags s))"
  by (simp add: clean_email_content_def sp_def)

lemma no_tag_clean: "\<not> has_tag (clean_email_content s)"
  using squeezed_tags [OF squeezed_join_split [of "re_sub_tags s"]] no_tag_re_sub_tags [of s]
  by (auto simp: clean_eq)

lemma py_split_clean: "py_split (clean_email_content s) = py_split (re_sub_tags s)"
  by (simp add: clean_eq py_split_join py_split_words)




text \<open>
  Claim C9. \<open>clean_email_content\<close> is idempotent: cleaning cleaned text changes
  nothing.
\<close>

theorem clean_email_content_idempotent:
  "clean_email_content (clean_email_content s) = clean_email_content s"
proof -
  have "re_sub_tags (clean_email_content s) = clean_email_content s"
    by (rule re_sub_tags_id [OF no_tag_clean])
  then have "clean_email_content (clean_email_content s)
               = py_join sp (py_split (clean_email_content s))"
    by (simp add: clean_eq)
  also have "\<dots> = clean_email_content s"
    by (simp add: py_split_clean) (simp add: clean_eq)
  finally show ?thesis .
qed

end
